theory Spec2Isabelle
  imports Main "HOL-Library.Multiset"
begin

section \<open>Environment: configuration, clock and library primitives\<close>

text \<open>
  The service is one module, \<^verbatim>\<open>main.py\<close>. It reads a signing secret from the process
  environment and signs its tokens with a library (python-jose, algorithm HS256). The
  keyed signature is not computed by code of the module, so it is a field of the
  environment record below and every statement holds for every choice of this function.

  The clock (\<^verbatim>\<open>datetime.utcnow()\<close>) is an explicit argument \<open>now\<close>, in whole seconds
  since the epoch: the token library stores the \<^verbatim>\<open>exp\<close> claim and reads the clock in
  whole seconds. The random salt of a password hash is an explicit argument \<open>salt\<close>.
\<close>

record claims =
  claim_sub :: "string option"
  claim_exp :: "int option"

text \<open>
  A token string is represented by what the library's parser makes of it: either the
  string has no parse as a compact serialisation, or it carries a header algorithm, a
  payload and a signature.
\<close>

datatype token = Malformed | Compact string claims string

record env =
  SECRET_KEY :: string
  jws_sign :: "string \<Rightarrow> string \<Rightarrow> claims \<Rightarrow> string"

text \<open>
  A stored password hash is represented by what the password library (passlib, scheme
  Argon2) identifies in it. An Argon2 hash fixes its salt and, by the library's contract
  that verification answers whether the secret matches the hash, the password it was
  computed from. Any other string is one that no configured scheme identifies.
\<close>

datatype password_hash = Argon2 string string | Unidentified

text \<open>
  The library refuses a secret longer than its maximum password size, 4096 characters
  unless the process environment sets another value.
\<close>

definition MAX_PASSWORD_SIZE :: nat where
  "MAX_PASSWORD_SIZE = 4096"

definition ALGORITHM :: string where
  "ALGORITHM = ''HS256''"

definition ACCESS_TOKEN_EXPIRE_MINUTES :: int where
  "ACCESS_TOKEN_EXPIRE_MINUTES = 60"

section \<open>Errors and results\<close>

text \<open>The exceptions of the password library that verification can raise.\<close>

datatype passlib_error = PasswordSizeError | UnknownHashError

text \<open>
  \<^verbatim>\<open>HTTPException(status_code, detail)\<close> is raised by the handlers; a request body that
  does not fit its schema class is answered by the framework with status 422 before the
  handler runs; an exception that no handler catches is answered with status 500.
\<close>

datatype http_error =
  HTTPException nat string | RequestValidationError | InternalServerError passlib_error

text \<open>The three ways \<^verbatim>\<open>jwt.decode\<close> fails here; all are subclasses of \<^verbatim>\<open>JWTError\<close>.\<close>

datatype jwt_error = JWSError | JWSSignatureError | ExpiredSignatureError

text \<open>A successful response carries the status code of the route decorator.\<close>

type_synonym 'a result = "http_error + nat \<times> 'a"

section \<open>Tables\<close>

record User =
  user_id :: int
  user_email :: string
  user_password_hash :: password_hash
  user_created_at :: int

record Note =
  note_id :: int
  note_owner_email :: string
  note_title :: string
  note_content :: string
  note_created_at :: int

text \<open>
  The two tables in insertion order, each with the counter of its auto-increment primary
  key. A query filter \<^verbatim>\<open>column == value\<close> is equality of the two strings or integers. The
  widths declared for the string columns (255, and 2000 for a note's content) are given
  to the database engine only; the module never compares a length with them, and the
  tables here keep the strings the session hands them. What the engine does with a value
  wider than its column, refuse the commit or cut the value, is not part of the module
  and is not described here.
\<close>

record db =
  users_table :: "User list"
  notes_table :: "Note list"
  next_user_id :: int
  next_note_id :: int

definition content_column_width :: nat where
  "content_column_width = 2000"

section \<open>Password and token helpers\<close>

text \<open>
  \<open>hash_password\<close> is called by \<open>register\<close> only, on a password that
  \<^verbatim>\<open>RegisterRequest\<close> has bounded to 100 characters, so the size limit of the library is
  out of its reach. \<open>verify_password\<close> is called by \<open>login\<close> on a password that
  \<^verbatim>\<open>LoginRequest\<close> does not bound; it first identifies the scheme of the hash, then
  checks the size of the secret, then compares, and catches neither exception.
\<close>

definition hash_password :: "string \<Rightarrow> string \<Rightarrow> password_hash" where
  "hash_password salt password = Argon2 salt password"

definition verify_password :: "string \<Rightarrow> password_hash \<Rightarrow> passlib_error + bool" where
  "verify_password password h =
     (case h of
        Unidentified \<Rightarrow> Inl UnknownHashError
      | Argon2 salt secret \<Rightarrow>
          if MAX_PASSWORD_SIZE < length password then Inl PasswordSizeError
          else Inr (password = secret))"

definition jwt_encode :: "env \<Rightarrow> claims \<Rightarrow> string \<Rightarrow> string \<Rightarrow> token" where
  "jwt_encode e payload key algorithm =
     Compact algorithm payload (jws_sign e algorithm key payload)"

definition jwt_decode ::
  "env \<Rightarrow> int \<Rightarrow> token \<Rightarrow> string \<Rightarrow> string list \<Rightarrow> jwt_error + claims" where
  "jwt_decode e now tok key algorithms =
     (case tok of
        Malformed \<Rightarrow> Inl JWSError
      | Compact alg payload sg \<Rightarrow>
          if alg \<notin> set algorithms then Inl JWSError
          else if sg \<noteq> jws_sign e alg key payload then Inl JWSSignatureError
          else (case claim_exp payload of
                  None \<Rightarrow> Inr payload
                | Some x \<Rightarrow> if x < now then Inl ExpiredSignatureError else Inr payload))"

text \<open>
  The expiry is computed in unbounded integers. Python's \<^verbatim>\<open>datetime\<close> raises
  \<^verbatim>\<open>OverflowError\<close> when the sum leaves its range, which ends with the year 9999; the
  only call of \<open>create_access_token\<close>, in \<open>login\<close>, uses the default lifetime, and the
  statements below are about that lifetime.
\<close>

definition create_access_token :: "env \<Rightarrow> int \<Rightarrow> string \<Rightarrow> int \<Rightarrow> token" where
  "create_access_token e now subject_email expires_minutes =
     (let expire = now + 60 * expires_minutes;
          payload = \<lparr>claim_sub = Some subject_email, claim_exp = Some expire\<rparr>
      in jwt_encode e payload (SECRET_KEY e) ALGORITHM)"

definition decode_token :: "env \<Rightarrow> int \<Rightarrow> token \<Rightarrow> http_error + string" where
  "decode_token e now tok =
     (case jwt_decode e now tok (SECRET_KEY e) [ALGORITHM] of
        Inl _ \<Rightarrow> Inl (HTTPException 401 ''Invalid or expired token'')
      | Inr payload \<Rightarrow>
          (case claim_sub payload of
             None \<Rightarrow> Inl (HTTPException 401 ''Invalid token'')
           | Some email \<Rightarrow>
               if email = [] then Inl (HTTPException 401 ''Invalid token'')
               else Inr email))"

definition require_user :: "env \<Rightarrow> int \<Rightarrow> token \<Rightarrow> db \<Rightarrow> http_error + User" where
  "require_user e now creds d =
     (case decode_token e now creds of
        Inl err \<Rightarrow> Inl err
      | Inr email \<Rightarrow>
          (case find (\<lambda>u. user_email u = email) (users_table d) of
             None \<Rightarrow> Inl (HTTPException 401 ''User not found'')
           | Some user \<Rightarrow> Inr user))"

section \<open>Schemas\<close>

record RegisterRequest =
  register_email :: string
  register_password :: string

record LoginRequest =
  login_email :: string
  login_password :: string

record TokenResponse =
  access_token :: token
  token_type :: string

record NoteCreate =
  title :: string
  content :: string

record NoteOut =
  out_id :: int
  out_title :: string
  out_content :: string
  out_created_at :: int

text \<open>
  The body of a note request as it arrives: a field is \<open>None\<close> when it is absent or
  not a string. \<^verbatim>\<open>NoteCreate\<close> declares both fields as \<^verbatim>\<open>str\<close> and nothing more; any
  other field of the body is dropped when the body is fitted to the class.
\<close>

record raw_note =
  raw_title :: "string option"
  raw_content :: "string option"

definition validate_NoteCreate :: "raw_note \<Rightarrow> http_error + NoteCreate" where
  "validate_NoteCreate body =
     (case (raw_title body, raw_content body) of
        (Some t, Some c) \<Rightarrow> Inr \<lparr>title = t, content = c\<rparr>
      | _ \<Rightarrow> Inl RequestValidationError)"

definition NoteOut_from :: "Note \<Rightarrow> NoteOut" where
  "NoteOut_from n =
     \<lparr>out_id = note_id n, out_title = note_title n, out_content = note_content n,
      out_created_at = note_created_at n\<rparr>"

section \<open>Endpoints\<close>

text \<open>
  Each endpoint takes the arguments of its Python function (the validated payload, the
  user resolved by \<open>require_user\<close>, the path parameter) and the store, and returns its
  outcome with the store as the request leaves it. A raised exception leaves the store as
  it was: nothing was committed. \<^verbatim>\<open>.first()\<close> on a filtered query is \<open>find\<close>; a changed
  or deleted object is written back by its primary key, so \<open>update_note\<close> rewrites and
  \<open>delete_note\<close> removes the rows with the id of the note that was found.
\<close>

definition register ::
  "env \<Rightarrow> int \<Rightarrow> string \<Rightarrow> RegisterRequest \<Rightarrow> db \<Rightarrow> string result \<times> db" where
  "register e now salt payload d =
     (case find (\<lambda>u. user_email u = register_email payload) (users_table d) of
        Some _ \<Rightarrow> (Inl (HTTPException 409 ''Email already registered''), d)
      | None \<Rightarrow>
          (let user = \<lparr>user_id = next_user_id d,
                       user_email = register_email payload,
                       user_password_hash = hash_password salt (register_password payload),
                       user_created_at = now\<rparr>
           in (Inr (201, ''registered''),
               d\<lparr>users_table := users_table d @ [user], next_user_id := next_user_id d + 1\<rparr>)))"

definition login ::
  "env \<Rightarrow> int \<Rightarrow> LoginRequest \<Rightarrow> db \<Rightarrow> TokenResponse result \<times> db" where
  "login e now payload d =
     (case find (\<lambda>u. user_email u = login_email payload) (users_table d) of
        None \<Rightarrow> (Inl (HTTPException 401 ''Invalid email or password''), d)
      | Some user \<Rightarrow>
          (case verify_password (login_password payload) (user_password_hash user) of
             Inl err \<Rightarrow> (Inl (InternalServerError err), d)
           | Inr matches \<Rightarrow>
               if \<not> matches
               then (Inl (HTTPException 401 ''Invalid email or password''), d)
               else (Inr (200,
                       \<lparr>access_token =
                          create_access_token e now (user_email user)
                            ACCESS_TOKEN_EXPIRE_MINUTES,
                        token_type = ''bearer''\<rparr>), d)))"

definition list_notes :: "User \<Rightarrow> db \<Rightarrow> Note list result \<times> db" where
  "list_notes user d =
     (Inr (200, rev (sort_key note_id
                  (filter (\<lambda>n. note_owner_email n = user_email user) (notes_table d)))), d)"

definition create_note :: "int \<Rightarrow> NoteCreate \<Rightarrow> User \<Rightarrow> db \<Rightarrow> Note result \<times> db" where
  "create_note now payload user d =
     (let note = \<lparr>note_id = next_note_id d,
                  note_owner_email = user_email user,
                  note_title = title payload,
                  note_content = content payload,
                  note_created_at = now\<rparr>
      in (Inr (201, note),
          d\<lparr>notes_table := notes_table d @ [note], next_note_id := next_note_id d + 1\<rparr>))"

definition update_note :: "int \<Rightarrow> NoteCreate \<Rightarrow> User \<Rightarrow> db \<Rightarrow> Note result \<times> db" where
  "update_note nid payload user d =
     (case find (\<lambda>n. note_id n = nid \<and> note_owner_email n = user_email user) (notes_table d) of
        None \<Rightarrow> (Inl (HTTPException 404 ''Note not found''), d)
      | Some note \<Rightarrow>
          (let note' = note\<lparr>note_title := title payload, note_content := content payload\<rparr>
           in (Inr (200, note'),
               d\<lparr>notes_table := map (\<lambda>n. if note_id n = note_id note
                                    then n\<lparr>note_title := title payload,
                                           note_content := content payload\<rparr>
                                    else n) (notes_table d)\<rparr>)))"

definition delete_note :: "int \<Rightarrow> User \<Rightarrow> db \<Rightarrow> string result \<times> db" where
  "delete_note nid user d =
     (case find (\<lambda>n. note_id n = nid \<and> note_owner_email n = user_email user) (notes_table d) of
        None \<Rightarrow> (Inl (HTTPException 404 ''Note not found''), d)
      | Some note \<Rightarrow>
          (Inr (200, ''deleted''),
           d\<lparr>notes_table := filter (\<lambda>n. note_id n \<noteq> note_id note) (notes_table d)\<rparr>))"

section \<open>Requests to the protected routes\<close>

text \<open>
  The framework resolves the dependency \<open>require_user\<close> from the bearer credentials, then
  fits the body to the schema class, then calls the endpoint. The response model of the
  note routes keeps the fields of \<open>NoteOut\<close>.
\<close>

definition post_notes ::
  "env \<Rightarrow> int \<Rightarrow> token \<Rightarrow> raw_note \<Rightarrow> db \<Rightarrow> NoteOut result \<times> db" where
  "post_notes e now creds body d =
     (case require_user e now creds d of
        Inl err \<Rightarrow> (Inl err, d)
      | Inr user \<Rightarrow>
          (case validate_NoteCreate body of
             Inl err \<Rightarrow> (Inl err, d)
           | Inr payload \<Rightarrow>
               (case create_note now payload user d of
                  (Inl err, d') \<Rightarrow> (Inl err, d')
                | (Inr (code, note), d') \<Rightarrow> (Inr (code, NoteOut_from note), d'))))"

definition put_notes ::
  "env \<Rightarrow> int \<Rightarrow> token \<Rightarrow> int \<Rightarrow> raw_note \<Rightarrow> db \<Rightarrow> NoteOut result \<times> db" where
  "put_notes e now creds nid body d =
     (case require_user e now creds d of
        Inl err \<Rightarrow> (Inl err, d)
      | Inr user \<Rightarrow>
          (case validate_NoteCreate body of
             Inl err \<Rightarrow> (Inl err, d)
           | Inr payload \<Rightarrow>
               (case update_note nid payload user d of
                  (Inl err, d') \<Rightarrow> (Inl err, d')
                | (Inr (code, note), d') \<Rightarrow> (Inr (code, NoteOut_from note), d'))))"

section \<open>Sequences of creations\<close>

text \<open>
  A run of note creations, each with its own clock reading, payload and authenticated
  user, applied to the store one after the other.
\<close>

fun create_notes :: "(int \<times> NoteCreate \<times> User) list \<Rightarrow> db \<Rightarrow> db" where
  "create_notes [] d = d"
| "create_notes ((now, payload, user) # rest) d =
     create_notes rest (snd (create_note now payload user d))"

section \<open>Primary key of the notes table\<close>

text \<open>
  The ids of the stored notes ascend strictly in insertion order and lie below the
  counter. The empty table has this property and every endpoint keeps it, so it holds
  in every store the service can reach; in particular no two notes share an id.
\<close>

definition notes_keyed :: "db \<Rightarrow> bool" where
  "notes_keyed d \<longleftrightarrow>
     sorted_wrt (<) (map note_id (notes_table d))
     \<and> list_all (\<lambda>n. note_id n < next_note_id d) (notes_table d)"

section \<open>Concrete inputs\<close>

text \<open>
  An instance of the environment and a few rows, on which the statements below are run.
  The instance's signature is the key itself; nothing proved for every environment
  depends on this choice.
\<close>

definition example_env :: env where
  "example_env = \<lparr>SECRET_KEY = ''k1'', jws_sign = (\<lambda>alg key payload. key)\<rparr>"

definition alice :: User where
  "alice = \<lparr>user_id = 1, user_email = ''a@x.com'',
            user_password_hash = Argon2 ''s1'' ''secret1'', user_created_at = 10\<rparr>"

definition bob :: User where
  "bob = \<lparr>user_id = 2, user_email = ''b@x.com'',
          user_password_hash = Argon2 ''s2'' ''secret2'', user_created_at = 20\<rparr>"

definition alice_note :: Note where
  "alice_note = \<lparr>note_id = 1, note_owner_email = ''a@x.com'', note_title = ''t'',
                 note_content = ''c'', note_created_at = 30\<rparr>"

definition empty_db :: db where
  "empty_db = \<lparr>users_table = [], notes_table = [], next_user_id = 1, next_note_id = 1\<rparr>"

definition two_users_db :: db where
  "two_users_db = \<lparr>users_table = [alice, bob], notes_table = [alice_note],
                   next_user_id = 3, next_note_id = 2\<rparr>"

definition alice_token :: token where
  "alice_token =
     Compact ''HS256'' \<lparr>claim_sub = Some ''a@x.com'', claim_exp = Some 3700\<rparr> ''k1''"

definition bob_token :: token where
  "bob_token =
     Compact ''HS256'' \<lparr>claim_sub = Some ''b@x.com'', claim_exp = Some 3700\<rparr> ''k1''"

definition long_content :: string where
  "long_content = replicate 2001 (CHR ''a'')"

definition long_password :: string where
  "long_password = replicate 4097 (CHR ''a'')"

definition three_creations :: "(int \<times> NoteCreate \<times> User) list" where
  "three_creations =
     [(50, \<lparr>title = ''a1'', content = ''x''\<rparr>, alice),
      (51, \<lparr>title = ''b1'', content = ''y''\<rparr>, bob),
      (52, \<lparr>title = ''a2'', content = ''z''\<rparr>, alice)]"

section \<open>Lookups\<close>

lemma find_Some_P: "find P xs = Some x \<Longrightarrow> P x \<and> x \<in> set xs"
  by (induction xs) (auto split: if_splits)

lemma find_append_None: "find P xs = None \<Longrightarrow> find P (xs @ ys) = find P ys"
  by (induction xs) (auto split: if_splits)

lemma find_own_note_None:
  "\<forall>n\<in>set ns. note_id n = nid \<longrightarrow> note_owner_email n \<noteq> em \<Longrightarrow>
   find (\<lambda>n. note_id n = nid \<and> note_owner_email n = em) ns = None"
  by (auto simp: find_None_iff)

section \<open>Tokens\<close>

lemma create_access_token_Compact:
  "create_access_token e now subject_email expires_minutes =
     Compact ALGORITHM
       \<lparr>claim_sub = Some subject_email, claim_exp = Some (now + 60 * expires_minutes)\<rparr>
       (jws_sign e ALGORITHM (SECRET_KEY e)
          \<lparr>claim_sub = Some subject_email, claim_exp = Some (now + 60 * expires_minutes)\<rparr>)"
  by (simp add: create_access_token_def jwt_encode_def Let_def)

lemma jwt_decode_own_token:
  "jwt_decode e now' (create_access_token e now subject_email expires_minutes)
     (SECRET_KEY e) [ALGORITHM] =
     (if now + 60 * expires_minutes < now' then Inl ExpiredSignatureError
      else Inr \<lparr>claim_sub = Some subject_email,
                claim_exp = Some (now + 60 * expires_minutes)\<rparr>)"
  by (simp add: create_access_token_Compact jwt_decode_def)

lemma decode_token_JWTError:
  "isl (jwt_decode e now tok (SECRET_KEY e) [ALGORITHM]) \<Longrightarrow>
   decode_token e now tok = Inl (HTTPException 401 ''Invalid or expired token'')"
  by (cases "jwt_decode e now tok (SECRET_KEY e) [ALGORITHM]") (simp_all add: decode_token_def)

lemma jwt_decode_bad_signature:
  "sg \<noteq> jws_sign e alg key payload \<Longrightarrow>
   isl (jwt_decode e now (Compact alg payload sg) key algs)"
  by (simp add: jwt_decode_def)

lemma jwt_decode_expired:
  "claim_exp payload = Some x \<Longrightarrow> x < now \<Longrightarrow>
   isl (jwt_decode e now (Compact alg payload sg) key algs)"
  by (simp add: jwt_decode_def)

lemma require_user_email:
  assumes "require_user e now creds d = Inr user"
  shows "decode_token e now creds = Inr (user_email user) \<and> user \<in> set (users_table d)"
proof (cases "decode_token e now creds")
  case (Inl err)
  with assms show ?thesis by (simp add: require_user_def)
next
  case (Inr email)
  with assms have "find (\<lambda>u. user_email u = email) (users_table d) = Some user"
    by (simp add: require_user_def split: option.splits)
  from find_Some_P [OF this] Inr show ?thesis by simp
qed

lemma require_user_alice:
  "require_user example_env 100 alice_token two_users_db = Inr alice"
  by (simp add: require_user_def decode_token_def jwt_decode_def alice_token_def example_env_def
        ALGORITHM_def two_users_db_def alice_def bob_def)

lemma require_user_bob:
  "require_user example_env 100 bob_token two_users_db = Inr bob"
  by (simp add: require_user_def decode_token_def jwt_decode_def bob_token_def example_env_def
        ALGORITHM_def two_users_db_def alice_def bob_def)

section \<open>Note bodies\<close>

lemma validate_NoteCreate_Some:
  "raw_title body = Some t \<Longrightarrow> raw_content body = Some c \<Longrightarrow>
   validate_NoteCreate body = Inr \<lparr>title = t, content = c\<rparr>"
  by (simp add: validate_NoteCreate_def)

lemma validate_NoteCreate_None:
  "raw_title body = None \<or> raw_content body = None \<Longrightarrow>
   validate_NoteCreate body = Inl RequestValidationError"
  by (auto simp: validate_NoteCreate_def split: option.splits)

section \<open>The primary key is kept\<close>

lemma notes_keyed_create_note:
  assumes "notes_keyed d"
  shows "notes_keyed (snd (create_note now payload user d))"
proof -
  from assms have s: "sorted_wrt (<) (map note_id (notes_table d))"
    and b: "\<forall>n\<in>set (notes_table d). note_id n < next_note_id d"
    by (simp_all add: notes_keyed_def list_all_iff)
  from b have "\<forall>n\<in>set (notes_table d). note_id n < next_note_id d + 1"
    by auto
  with s b show ?thesis
    by (simp add: notes_keyed_def create_note_def Let_def sorted_wrt_append list_all_iff)
qed

lemma notes_keyed_create_notes:
  "notes_keyed d \<Longrightarrow> notes_keyed (create_notes reqs d)"
proof (induction reqs arbitrary: d)
  case Nil
  then show ?case by simp
next
  case (Cons r rs)
  obtain now payload user where r: "r = (now, payload, user)"
    by (cases r) auto
  show ?case
    using Cons.IH [OF notes_keyed_create_note [OF Cons.prems]] by (simp add: r)
qed

lemma notes_keyed_update_note:
  assumes "notes_keyed d"
  shows "notes_keyed (snd (update_note nid payload user d))"
proof (cases "find (\<lambda>n. note_id n = nid \<and> note_owner_email n = user_email user)
                (notes_table d)")
  case None
  with assms show ?thesis by (simp add: update_note_def)
next
  case (Some found)
  let ?upd = "\<lambda>n. if note_id n = note_id found
                   then n\<lparr>note_title := title payload, note_content := content payload\<rparr>
                   else n"
  have ids: "map note_id (map ?upd ns) = map note_id ns" for ns
    by (induction ns) simp_all
  have bound: "list_all (\<lambda>n. note_id n < k) (map ?upd ns)
      \<longleftrightarrow> list_all (\<lambda>n. note_id n < k) ns" for k ns
    by (induction ns) simp_all
  from assms show ?thesis
    by (simp add: notes_keyed_def update_note_def Some Let_def ids bound del: map_map)
qed

lemma notes_keyed_delete_note:
  assumes "notes_keyed d"
  shows "notes_keyed (snd (delete_note nid user d))"
proof (cases "find (\<lambda>n. note_id n = nid \<and> note_owner_email n = user_email user)
                (notes_table d)")
  case None
  with assms show ?thesis by (simp add: delete_note_def)
next
  case (Some found)
  from assms have "sorted_wrt (\<lambda>a b. note_id a < note_id b) (notes_table d)"
    by (simp add: notes_keyed_def sorted_wrt_map)
  then have "sorted_wrt (\<lambda>a b. note_id a < note_id b)
               (filter (\<lambda>n. note_id n \<noteq> note_id found) (notes_table d))"
    by (rule sorted_wrt_filter)
  with assms show ?thesis
    by (auto simp: notes_keyed_def delete_note_def Some sorted_wrt_map list_all_iff)
qed

lemma notes_keyed_other_endpoints:
  "notes_table (snd (register e now salt p d)) = notes_table d"
  "next_note_id (snd (register e now salt p d)) = next_note_id d"
  "snd (login e now q d) = d"
  "snd (list_notes user d) = d"
  by (simp_all add: register_def login_def list_notes_def Let_def
      split: option.splits sum.splits)

lemma notes_keyed_empty_db: "notes_keyed empty_db"
  by (simp add: notes_keyed_def empty_db_def)

section \<open>Listing a store\<close>

lemma sort_key_ascending:
  assumes "sorted_wrt (\<lambda>a b. note_id a < note_id b) ns"
  shows "sort_key note_id ns = ns"
proof -
  from assms have "sorted_wrt (\<lambda>a b. note_id a \<le> note_id b) ns"
    by (rule sorted_wrt_mono_rel [rotated]) simp
  then have "sorted (map note_id ns)"
    by (simp add: sorted_map)
  then show ?thesis
    by (rule sort_key_id_if_sorted)
qed

lemma list_notes_any_store:
  "\<exists>ns. list_notes user d = (Inr (200, ns), d)
        \<and> mset ns = filter_mset (\<lambda>n. note_owner_email n = user_email user)
                       (mset (notes_table d))
        \<and> sorted_wrt (\<lambda>a b. note_id b \<le> note_id a) ns"
proof -
  let ?own = "filter (\<lambda>n. note_owner_email n = user_email user) (notes_table d)"
  have "sorted (map note_id (sort_key note_id ?own))"
    by (rule sorted_sort_key)
  then have "sorted_wrt (\<lambda>a b. note_id a \<le> note_id b) (sort_key note_id ?own)"
    by (simp add: sorted_map)
  then have "sorted_wrt (\<lambda>a b. note_id b \<le> note_id a) (rev (sort_key note_id ?own))"
    by (simp add: sorted_wrt_rev)
  then show ?thesis
    by (simp add: list_notes_def)
qed

section \<open>Ownership check of update and delete\<close>

text \<open>
  Claim C1. An update or delete made as a user answers with the same
  \<^verbatim>\<open>HTTPException(404, "Note not found")\<close> in two situations: the store \<open>d1\<close> holds no
  note with the given id, and the store \<open>d2\<close> holds a note with that id but every such
  note belongs to somebody else. In both the store is left exactly as it was, so no note
  is modified or deleted, and the two outcomes are equal, so the caller cannot tell which
  situation it is in.
\<close>

theorem not_found_for_missing_and_foreign_notes:
  assumes missing: "\<forall>n\<in>set (notes_table d1). note_id n \<noteq> nid"
    and present: "\<exists>n\<in>set (notes_table d2). note_id n = nid"
    and foreign: "\<forall>n\<in>set (notes_table d2).
                    note_id n = nid \<longrightarrow> note_owner_email n \<noteq> user_email user"
  shows "update_note nid payload user d1 = (Inl (HTTPException 404 ''Note not found''), d1)
       \<and> update_note nid payload user d2 = (Inl (HTTPException 404 ''Note not found''), d2)
       \<and> delete_note nid user d1 = (Inl (HTTPException 404 ''Note not found''), d1)
       \<and> delete_note nid user d2 = (Inl (HTTPException 404 ''Note not found''), d2)"
proof -
  have f1: "find (\<lambda>n. note_id n = nid \<and> note_owner_email n = user_email user)
              (notes_table d1) = None"
    using missing by (auto simp: find_None_iff)
  have f2: "find (\<lambda>n. note_id n = nid \<and> note_owner_email n = user_email user)
              (notes_table d2) = None"
    using foreign by (rule find_own_note_None)
  show ?thesis
    by (simp add: update_note_def delete_note_def f1 f2)
qed

text \<open>
  Bob asks for note 1 on the empty store, and on the store where note 1 is Alice's.
\<close>

theorem not_found_for_missing_and_foreign_notes_witness:
  "notes_table empty_db = []
   \<and> map (\<lambda>n. (note_id n, note_owner_email n)) (notes_table two_users_db)
       = [(1, ''a@x.com'')]
   \<and> user_email bob = ''b@x.com''
   \<and> update_note 1 \<lparr>title = ''x'', content = ''y''\<rparr> bob empty_db
       = (Inl (HTTPException 404 ''Note not found''), empty_db)
   \<and> update_note 1 \<lparr>title = ''x'', content = ''y''\<rparr> bob two_users_db
       = (Inl (HTTPException 404 ''Note not found''), two_users_db)
   \<and> delete_note 1 bob empty_db = (Inl (HTTPException 404 ''Note not found''), empty_db)
   \<and> delete_note 1 bob two_users_db
       = (Inl (HTTPException 404 ''Note not found''), two_users_db)"
proof -
  have h1: "\<forall>n\<in>set (notes_table empty_db). note_id n \<noteq> 1"
    by (simp add: empty_db_def)
  have h2: "\<exists>n\<in>set (notes_table two_users_db). note_id n = 1"
    by (simp add: two_users_db_def alice_note_def)
  have h3: "\<forall>n\<in>set (notes_table two_users_db).
              note_id n = 1 \<longrightarrow> note_owner_email n \<noteq> user_email bob"
    by (simp add: two_users_db_def alice_note_def bob_def)
  have rows: "notes_table empty_db = []"
    "map (\<lambda>n. (note_id n, note_owner_email n)) (notes_table two_users_db)
       = [(1, ''a@x.com'')]"
    "user_email bob = ''b@x.com''"
    by (simp_all add: empty_db_def two_users_db_def alice_note_def bob_def)
  show ?thesis
    using rows
      not_found_for_missing_and_foreign_notes
        [OF h1 h2 h3, of "\<lparr>title = ''x'', content = ''y''\<rparr>"]
    by blast
qed

section \<open>Registration\<close>

text \<open>
  Claim C2. When no stored user has the payload's email, \<open>register\<close> answers 201 and
  the store then holds a user with that email and the hash of the given password. Any
  later registration with the same email, whatever its password, salt and time, answers
  \<^verbatim>\<open>HTTPException(409, "Email already registered")\<close> and leaves the store, and so the
  stored email and password hash, unchanged.
\<close>

theorem register_once_then_conflict:
  assumes fresh: "\<forall>u\<in>set (users_table d). user_email u \<noteq> register_email p"
    and again: "register_email p' = register_email p"
  shows "fst (register e now salt p d) = Inr (201, ''registered'')
       \<and> find (\<lambda>u. user_email u = register_email p)
             (users_table (snd (register e now salt p d)))
           = Some \<lparr>user_id = next_user_id d, user_email = register_email p,
                   user_password_hash = hash_password salt (register_password p),
                   user_created_at = now\<rparr>
       \<and> register e now' salt' p' (snd (register e now salt p d))
           = (Inl (HTTPException 409 ''Email already registered''),
              snd (register e now salt p d))"
proof -
  let ?u = "\<lparr>user_id = next_user_id d, user_email = register_email p,
             user_password_hash = hash_password salt (register_password p),
             user_created_at = now\<rparr>"
  let ?d' = "d\<lparr>users_table := users_table d @ [?u], next_user_id := next_user_id d + 1\<rparr>"
  have none: "find (\<lambda>u. user_email u = register_email p) (users_table d) = None"
    using fresh by (auto simp: find_None_iff)
  have first: "register e now salt p d = (Inr (201, ''registered''), ?d')"
    by (simp add: register_def none)
  have found: "find (\<lambda>u. user_email u = register_email p) (users_table ?d') = Some ?u"
    using none by (simp add: find_append_None)
  have second: "register e now' salt' p' ?d'
                  = (Inl (HTTPException 409 ''Email already registered''), ?d')"
    unfolding register_def again found by simp
  show ?thesis
    unfolding first using found second by simp
qed

theorem register_once_then_conflict_witness:
  "users_table empty_db = []
   \<and> fst (register example_env 10 ''s1''
             \<lparr>register_email = ''a@x.com'', register_password = ''secret1''\<rparr> empty_db)
       = Inr (201, ''registered'')
   \<and> register example_env 11 ''s2''
        \<lparr>register_email = ''a@x.com'', register_password = ''other22''\<rparr>
        (snd (register example_env 10 ''s1''
                \<lparr>register_email = ''a@x.com'', register_password = ''secret1''\<rparr> empty_db))
       = (Inl (HTTPException 409 ''Email already registered''),
          snd (register example_env 10 ''s1''
                 \<lparr>register_email = ''a@x.com'', register_password = ''secret1''\<rparr> empty_db))"
proof -
  have h: "\<forall>u\<in>set (users_table empty_db).
             user_email u \<noteq> register_email \<lparr>register_email = ''a@x.com'',
                                                register_password = ''secret1''\<rparr>"
    by (simp add: empty_db_def)
  have rows: "users_table empty_db = []"
    by (simp add: empty_db_def)
  show ?thesis
    using rows register_once_then_conflict
      [OF h, of "\<lparr>register_email = ''a@x.com'', register_password = ''other22''\<rparr>"
         example_env 10 "''s1''" 11 "''s2''"]
    by simp
qed

section \<open>Password verification\<close>

text \<open>
  Claim C6, as stated, fails at a password of 4097 characters: verifying it against
  the hash of \<^verbatim>\<open>secret1\<close> raises \<^verbatim>\<open>PasswordSizeError\<close> where the claim has verification
  return false, and hashing it and verifying it against the result ends in the same
  exception where the claim has verification return true.
\<close>

theorem oversized_password_raises:
  "length long_password = 4097
   \<and> long_password \<noteq> ''secret1''
   \<and> verify_password long_password (hash_password ''s1'' ''secret1'')
       = Inl PasswordSizeError
   \<and> verify_password long_password (hash_password ''s1'' long_password)
       = Inl PasswordSizeError"
proof -
  have len: "length long_password = 4097"
    by (simp add: long_password_def)
  have ne: "long_password \<noteq> ''secret1''"
  proof
    assume "long_password = ''secret1''"
    then have "length long_password = length ''secret1''"
      by (rule arg_cong)
    with len show False
      by simp
  qed
  show ?thesis
    using len ne by (simp add: verify_password_def hash_password_def MAX_PASSWORD_SIZE_def)
qed

text \<open>
  Claim C6, amended. Among passwords of at most 4096 characters, a password verifies
  against its own hash, whatever the salt, and a different password does not: both
  verifications return, the first true and the second false. Against the hash of such a
  password, a candidate of more than 4096 characters makes verification raise
  \<^verbatim>\<open>PasswordSizeError\<close>.
\<close>

theorem verify_password_of_hash:
  "(length p \<le> MAX_PASSWORD_SIZE \<longrightarrow>
      verify_password p (hash_password salt p) = Inr True)
   \<and> (length p \<le> MAX_PASSWORD_SIZE \<and> length w \<le> MAX_PASSWORD_SIZE \<and> w \<noteq> p \<longrightarrow>
        verify_password w (hash_password salt p) = Inr False)
   \<and> (length p \<le> MAX_PASSWORD_SIZE \<and> MAX_PASSWORD_SIZE < length w \<longrightarrow>
        verify_password w (hash_password salt p) = Inl PasswordSizeError)"
  by (simp add: verify_password_def hash_password_def)

theorem verify_password_of_hash_witness:
  "length ''secret1'' \<le> MAX_PASSWORD_SIZE
   \<and> verify_password ''secret1'' (hash_password ''s1'' ''secret1'') = Inr True
   \<and> length ''wrong11'' \<le> MAX_PASSWORD_SIZE
   \<and> ''wrong11'' \<noteq> ''secret1''
   \<and> verify_password ''wrong11'' (hash_password ''s1'' ''secret1'') = Inr False
   \<and> MAX_PASSWORD_SIZE < length (replicate 5000 (CHR ''b''))
   \<and> verify_password (replicate 5000 (CHR ''b'')) (hash_password ''s1'' ''secret1'')
       = Inl PasswordSizeError"
  using verify_password_of_hash [of "''secret1''" "''s1''" "''wrong11''"]
    verify_password_of_hash [of "''secret1''" "''s1''" "replicate 5000 (CHR ''b'')"]
  by (simp add: MAX_PASSWORD_SIZE_def)

section \<open>Token round trip\<close>

text \<open>
  Claim C3. For every email, an email being a non-empty string, the token that
  \<open>create_access_token\<close> issues for it with the service's lifetime of 60 minutes
  decodes, at every time before its expiry, to that same email.
\<close>

theorem token_round_trip:
  assumes "subject_email \<noteq> []"
    and "now' < now + 60 * ACCESS_TOKEN_EXPIRE_MINUTES"
  shows "decode_token e now'
           (create_access_token e now subject_email ACCESS_TOKEN_EXPIRE_MINUTES)
           = Inr subject_email"
  using assms by (simp add: decode_token_def jwt_decode_own_token)

text \<open>A token issued for Alice at time 0 and verified one second before it expires.\<close>

theorem token_round_trip_witness:
  "''a@x.com'' \<noteq> [] \<and> (3599::int) < 0 + 60 * ACCESS_TOKEN_EXPIRE_MINUTES
   \<and> decode_token example_env 3599
        (create_access_token example_env 0 ''a@x.com'' ACCESS_TOKEN_EXPIRE_MINUTES)
        = Inr ''a@x.com''"
proof -
  have h1: "''a@x.com'' \<noteq> []" by simp
  have h2: "(3599::int) < 0 + 60 * ACCESS_TOKEN_EXPIRE_MINUTES"
    by (simp add: ACCESS_TOKEN_EXPIRE_MINUTES_def)
  show ?thesis
    using h1 h2 token_round_trip [OF h1 h2, of example_env] by simp
qed

section \<open>Rejected tokens\<close>

text \<open>
  Claim C5. \<open>decode_token\<close> raises \<^verbatim>\<open>HTTPException(401, "Invalid or expired token")\<close> for
  a token that has no parse, for a token whose signature is not the one the configured
  secret gives for its header and payload, and for a token whose \<^verbatim>\<open>exp\<close> lies before the
  time of verification. In particular a token issued with the default lifetime is rejected
  at every time later than its issue time plus 60 minutes.
\<close>

theorem decode_token_rejects:
  "decode_token e now Malformed = Inl (HTTPException 401 ''Invalid or expired token'')
   \<and> (sg \<noteq> jws_sign e alg (SECRET_KEY e) payload \<longrightarrow>
        decode_token e now (Compact alg payload sg)
          = Inl (HTTPException 401 ''Invalid or expired token''))
   \<and> (claim_exp payload = Some x \<and> x < now \<longrightarrow>
        decode_token e now (Compact alg payload sg)
          = Inl (HTTPException 401 ''Invalid or expired token''))
   \<and> (issued + 60 * ACCESS_TOKEN_EXPIRE_MINUTES < now \<longrightarrow>
        decode_token e now (create_access_token e issued email ACCESS_TOKEN_EXPIRE_MINUTES)
          = Inl (HTTPException 401 ''Invalid or expired token''))"
proof (intro conjI impI)
  show "decode_token e now Malformed = Inl (HTTPException 401 ''Invalid or expired token'')"
    by (rule decode_token_JWTError) (simp add: jwt_decode_def)
next
  assume "sg \<noteq> jws_sign e alg (SECRET_KEY e) payload"
  then show "decode_token e now (Compact alg payload sg)
      = Inl (HTTPException 401 ''Invalid or expired token'')"
    by (intro decode_token_JWTError jwt_decode_bad_signature)
next
  assume "claim_exp payload = Some x \<and> x < now"
  then show "decode_token e now (Compact alg payload sg)
      = Inl (HTTPException 401 ''Invalid or expired token'')"
    by (intro decode_token_JWTError jwt_decode_expired [of payload x]) simp_all
next
  assume "issued + 60 * ACCESS_TOKEN_EXPIRE_MINUTES < now"
  then show "decode_token e now
               (create_access_token e issued email ACCESS_TOKEN_EXPIRE_MINUTES)
      = Inl (HTTPException 401 ''Invalid or expired token'')"
    by (intro decode_token_JWTError) (simp add: jwt_decode_own_token)
qed

text \<open>
  At time 5000: a token signed with another key, a token that expired at 4000, and a
  token issued at 1000 with the default lifetime.
\<close>

theorem decode_token_rejects_witness:
  "decode_token example_env 5000 Malformed
     = Inl (HTTPException 401 ''Invalid or expired token'')
   \<and> ''k2'' \<noteq> jws_sign example_env ''HS256'' (SECRET_KEY example_env)
                \<lparr>claim_sub = Some ''a@x.com'', claim_exp = Some 4000\<rparr>
   \<and> decode_token example_env 5000
        (Compact ''HS256'' \<lparr>claim_sub = Some ''a@x.com'', claim_exp = Some 4000\<rparr> ''k2'')
        = Inl (HTTPException 401 ''Invalid or expired token'')
   \<and> claim_exp \<lparr>claim_sub = Some ''a@x.com'', claim_exp = Some 4000\<rparr> = Some 4000
   \<and> (4000::int) < 5000
   \<and> (1000::int) + 60 * ACCESS_TOKEN_EXPIRE_MINUTES < 5000
   \<and> decode_token example_env 5000
        (create_access_token example_env 1000 ''a@x.com'' ACCESS_TOKEN_EXPIRE_MINUTES)
        = Inl (HTTPException 401 ''Invalid or expired token'')"
  using decode_token_rejects
    [of example_env 5000 "''k2''" "''HS256''"
        "\<lparr>claim_sub = Some ''a@x.com'', claim_exp = Some 4000\<rparr>" 4000 1000 "''a@x.com''"]
  by (simp add: example_env_def ACCESS_TOKEN_EXPIRE_MINUTES_def)

section \<open>Login failures\<close>

text \<open>
  A login whose email has no stored user, and a login whose email has a stored user
  with a hash of another password, both raise
  \<^verbatim>\<open>HTTPException(401, "Invalid email or password")\<close> as long as the password offered
  has at most 4096 characters.
\<close>

lemma login_failures_within_size:
  assumes unknown: "\<forall>u\<in>set (users_table d1). user_email u \<noteq> login_email p1"
    and known: "find (\<lambda>u. user_email u = login_email p2) (users_table d2) = Some u"
    and hashed: "user_password_hash u = hash_password salt secret"
    and size: "length (login_password p2) \<le> MAX_PASSWORD_SIZE"
    and wrong: "login_password p2 \<noteq> secret"
  shows "login e now1 p1 d1 = (Inl (HTTPException 401 ''Invalid email or password''), d1)
       \<and> login e now2 p2 d2 = (Inl (HTTPException 401 ''Invalid email or password''), d2)"
proof -
  have none: "find (\<lambda>u. user_email u = login_email p1) (users_table d1) = None"
    using unknown by (auto simp: find_None_iff)
  have v: "verify_password (login_password p2) (user_password_hash u) = Inr False"
    using size wrong by (simp add: verify_password_def hashed hash_password_def)
  show ?thesis
    by (simp add: login_def none known v)
qed

text \<open>
  With a longer password the stored user's login ends in the exception that
  \<open>verify_password\<close> lets through, while the unknown email never reaches it.
\<close>

lemma login_oversized_password:
  assumes known: "find (\<lambda>u. user_email u = login_email p) (users_table d) = Some u"
    and hashed: "user_password_hash u = hash_password salt secret"
    and size: "MAX_PASSWORD_SIZE < length (login_password p)"
  shows "login e now p d = (Inl (InternalServerError PasswordSizeError), d)"
proof -
  have "verify_password (login_password p) (user_password_hash u) = Inl PasswordSizeError"
    using size by (simp add: verify_password_def hashed hash_password_def)
  then show ?thesis
    by (simp add: login_def known)
qed

text \<open>
  Claim C7 says that a login with an unknown email and a login with a registered email
  and a non-matching password produce the same 401 response. At a password of 4097
  characters the code does not: for the unknown email \<^verbatim>\<open>c@x.com\<close> it answers 401, for
  Alice's registered email it answers 500, because \<^verbatim>\<open>LoginRequest\<close> puts no bound on
  the password and \<open>login\<close> does not catch the library's \<^verbatim>\<open>PasswordSizeError\<close>.
\<close>

theorem login_oversized_password_tells_emails_apart:
  "length long_password = 4097
   \<and> login example_env 40 \<lparr>login_email = ''c@x.com'', login_password = long_password\<rparr>
        two_users_db
       = (Inl (HTTPException 401 ''Invalid email or password''), two_users_db)
   \<and> login example_env 40 \<lparr>login_email = ''a@x.com'', login_password = long_password\<rparr>
        two_users_db
       = (Inl (InternalServerError PasswordSizeError), two_users_db)"
proof (intro conjI)
  show len: "length long_password = 4097"
    by (simp add: long_password_def)
  have "find (\<lambda>u. user_email u
                = login_email \<lparr>login_email = ''c@x.com'', login_password = long_password\<rparr>)
          (users_table two_users_db) = None"
    by (simp add: two_users_db_def alice_def bob_def)
  then show "login example_env 40
               \<lparr>login_email = ''c@x.com'', login_password = long_password\<rparr> two_users_db
       = (Inl (HTTPException 401 ''Invalid email or password''), two_users_db)"
    by (simp add: login_def)
  have known: "find (\<lambda>u. user_email u
                = login_email \<lparr>login_email = ''a@x.com'', login_password = long_password\<rparr>)
          (users_table two_users_db) = Some alice"
    by (simp add: two_users_db_def alice_def bob_def)
  have hashed: "user_password_hash alice = hash_password ''s1'' ''secret1''"
    by (simp add: alice_def hash_password_def)
  have size: "MAX_PASSWORD_SIZE
                < length (login_password
                    \<lparr>login_email = ''a@x.com'', login_password = long_password\<rparr>)"
    by (simp add: MAX_PASSWORD_SIZE_def len)
  show "login example_env 40
          \<lparr>login_email = ''a@x.com'', login_password = long_password\<rparr> two_users_db
       = (Inl (InternalServerError PasswordSizeError), two_users_db)"
    by (rule login_oversized_password [OF known hashed size])
qed

section \<open>Frame of an update\<close>

text \<open>
  Claim C8. When \<open>update_note\<close> succeeds, the note it found for this id and this owner
  comes back with the payload's title and content and with its id, owner and creation
  time as they were. In the store, the ids, owners and creation times of all notes are
  as before, in the same order; every note with another id is unchanged; the users table
  and both counters are unchanged.
\<close>

theorem update_note_changes_title_and_content_only:
  assumes ok: "update_note nid payload user d = (Inr (code, note'), d')"
  shows "\<exists>old. find (\<lambda>n. note_id n = nid \<and> note_owner_email n = user_email user)
                  (notes_table d) = Some old
           \<and> note' = old\<lparr>note_title := title payload, note_content := content payload\<rparr>
           \<and> note_id note' = nid
           \<and> note_owner_email note' = user_email user
           \<and> note_created_at note' = note_created_at old
           \<and> map note_id (notes_table d') = map note_id (notes_table d)
           \<and> map note_owner_email (notes_table d') = map note_owner_email (notes_table d)
           \<and> map note_created_at (notes_table d') = map note_created_at (notes_table d)
           \<and> filter (\<lambda>n. note_id n \<noteq> nid) (notes_table d')
               = filter (\<lambda>n. note_id n \<noteq> nid) (notes_table d)
           \<and> users_table d' = users_table d
           \<and> next_user_id d' = next_user_id d
           \<and> next_note_id d' = next_note_id d"
proof (cases "find (\<lambda>n. note_id n = nid \<and> note_owner_email n = user_email user)
                (notes_table d)")
  case None
  with ok show ?thesis by (simp add: update_note_def)
next
  case (Some found)
  let ?upd = "\<lambda>n. if note_id n = nid
                   then n\<lparr>note_title := title payload, note_content := content payload\<rparr>
                   else n"
  have P: "note_id found = nid" "note_owner_email found = user_email user"
    using find_Some_P [OF Some] by simp_all
  have res: "note' = found\<lparr>note_title := title payload, note_content := content payload\<rparr>"
    and st: "d' = d\<lparr>notes_table := map ?upd (notes_table d)\<rparr>"
    using ok by (simp_all add: update_note_def Some Let_def P)
  have ids: "map note_id (map ?upd ns) = map note_id ns" for ns
    by (induction ns) simp_all
  have owners: "map note_owner_email (map ?upd ns) = map note_owner_email ns" for ns
    by (induction ns) simp_all
  have times: "map note_created_at (map ?upd ns) = map note_created_at ns" for ns
    by (induction ns) simp_all
  have others: "filter (\<lambda>n. note_id n \<noteq> nid) (map ?upd ns)
                  = filter (\<lambda>n. note_id n \<noteq> nid) ns" for ns
    by (induction ns) simp_all
  show ?thesis
    using Some P by (simp add: res st ids owners times others)
qed

theorem update_note_changes_title_and_content_only_witness:
  "update_note 1 \<lparr>title = ''t2'', content = ''c2''\<rparr> alice two_users_db
     = (Inr (200, alice_note\<lparr>note_title := ''t2'', note_content := ''c2''\<rparr>),
        two_users_db
          \<lparr>notes_table := [alice_note\<lparr>note_title := ''t2'', note_content := ''c2''\<rparr>]\<rparr>)
   \<and> map note_owner_email
        (notes_table (two_users_db
           \<lparr>notes_table := [alice_note\<lparr>note_title := ''t2'', note_content := ''c2''\<rparr>]\<rparr>))
       = map note_owner_email (notes_table two_users_db)"
proof -
  have h: "update_note 1 \<lparr>title = ''t2'', content = ''c2''\<rparr> alice two_users_db
     = (Inr (200, alice_note\<lparr>note_title := ''t2'', note_content := ''c2''\<rparr>),
        two_users_db
          \<lparr>notes_table := [alice_note\<lparr>note_title := ''t2'', note_content := ''c2''\<rparr>]\<rparr>)"
    by (simp add: update_note_def two_users_db_def alice_note_def alice_def)
  show ?thesis
    using h update_note_changes_title_and_content_only [OF h] by blast
qed

section \<open>Length of title and content\<close>

text \<open>
  Claim C9, as stated, fails: a body whose content has 2001 characters, one more than
  the width of the content column, is not rejected by validation; it fits \<open>NoteCreate\<close>
  with the content as it came.
\<close>

theorem overlong_content_passes_validation:
  "content_column_width < length long_content
   \<and> validate_NoteCreate \<lparr>raw_title = Some ''t'', raw_content = Some long_content\<rparr>
       = Inr \<lparr>title = ''t'', content = long_content\<rparr>"
  by (simp add: content_column_width_def long_content_def validate_NoteCreate_Some)

text \<open>
  Claim C9, amended. Validation of the body of a note creation or note update checks
  that title and content are present as strings and nothing else: strings of any length
  fit \<open>NoteCreate\<close> unchanged, so validation neither rejects nor cuts an over-long title
  or content, and an authenticated request to either route is answered with a validation
  error exactly when one of the two fields is missing.
\<close>

theorem note_validation_checks_no_length:
  "validate_NoteCreate \<lparr>raw_title = Some t, raw_content = Some c\<rparr>
     = Inr \<lparr>title = t, content = c\<rparr>
   \<and> isl (validate_NoteCreate body) = (raw_title body = None \<or> raw_content body = None)
   \<and> (require_user e now creds d = Inr user \<longrightarrow>
        (fst (post_notes e now creds body d) = Inl RequestValidationError)
          = (raw_title body = None \<or> raw_content body = None)
        \<and> (fst (put_notes e now creds nid body d) = Inl RequestValidationError)
            = (raw_title body = None \<or> raw_content body = None))"
proof (intro conjI impI)
  show "validate_NoteCreate \<lparr>raw_title = Some t, raw_content = Some c\<rparr>
     = Inr \<lparr>title = t, content = c\<rparr>"
    by (simp add: validate_NoteCreate_Some)
  show "isl (validate_NoteCreate body) = (raw_title body = None \<or> raw_content body = None)"
    by (auto simp: validate_NoteCreate_def split: option.splits)
next
  assume auth: "require_user e now creds d = Inr user"
  show "(fst (post_notes e now creds body d) = Inl RequestValidationError)
          = (raw_title body = None \<or> raw_content body = None)"
  proof (cases "raw_title body = None \<or> raw_content body = None")
    case True
    then show ?thesis
      by (simp add: post_notes_def auth validate_NoteCreate_None)
  next
    case False
    then obtain t' c' where "raw_title body = Some t'" "raw_content body = Some c'"
      by auto
    then show ?thesis
      by (simp add: post_notes_def auth validate_NoteCreate_Some create_note_def Let_def)
  qed
  show "(fst (put_notes e now creds nid body d) = Inl RequestValidationError)
          = (raw_title body = None \<or> raw_content body = None)"
  proof (cases "raw_title body = None \<or> raw_content body = None")
    case True
    then show ?thesis
      by (simp add: put_notes_def auth validate_NoteCreate_None)
  next
    case False
    then obtain t' c' where "raw_title body = Some t'" "raw_content body = Some c'"
      by auto
    then show ?thesis
      by (simp add: put_notes_def auth validate_NoteCreate_Some update_note_def Let_def
          split: option.splits)
  qed
qed

text \<open>
  Bob sends the 2001 characters to both routes, and a body without content to the
  creation route.
\<close>

theorem note_validation_checks_no_length_witness:
  "require_user example_env 100 bob_token two_users_db = Inr bob
   \<and> fst (post_notes example_env 100 bob_token
             \<lparr>raw_title = Some ''t'', raw_content = Some long_content\<rparr> two_users_db)
       \<noteq> Inl RequestValidationError
   \<and> fst (put_notes example_env 100 bob_token 1
             \<lparr>raw_title = Some ''t'', raw_content = Some long_content\<rparr> two_users_db)
       \<noteq> Inl RequestValidationError
   \<and> fst (post_notes example_env 100 bob_token
             \<lparr>raw_title = Some ''t'', raw_content = None\<rparr> two_users_db)
       = Inl RequestValidationError"
proof -
  have h: "require_user example_env 100 bob_token two_users_db = Inr bob"
    by (rule require_user_bob)
  show ?thesis
    using h
      note_validation_checks_no_length
        [of _ _ "\<lparr>raw_title = Some ''t'', raw_content = Some long_content\<rparr>"
            example_env 100 bob_token two_users_db bob 1]
      note_validation_checks_no_length
        [of _ _ "\<lparr>raw_title = Some ''t'', raw_content = None\<rparr>"
            example_env 100 bob_token two_users_db bob 1]
    by simp
qed

section \<open>Owner of a created note\<close>

text \<open>
  Claim C10. When the bearer credentials resolve to a user, that user's email is the
  subject of the token, and a creation request has one of two outcomes whatever its body:
  a validation error with the store unchanged, when title or content is missing, or 201
  with exactly one note appended, whose owner is the resolved user's email. The body has
  a title and a content and no other field, so it has no say in the owner.
\<close>

theorem created_note_is_owned_by_token_user:
  assumes auth: "require_user e now creds d = Inr user"
  shows "decode_token e now creds = Inr (user_email user)
       \<and> (raw_title body = None \<or> raw_content body = None \<longrightarrow>
            post_notes e now creds body d = (Inl RequestValidationError, d))
       \<and> (raw_title body = Some t \<and> raw_content body = Some c \<longrightarrow>
            (\<exists>new. post_notes e now creds body d
                      = (Inr (201, NoteOut_from new),
                         d\<lparr>notes_table := notes_table d @ [new],
                           next_note_id := next_note_id d + 1\<rparr>)
                  \<and> note_owner_email new = user_email user
                  \<and> note_title new = t \<and> note_content new = c))"
proof (intro conjI impI)
  show "decode_token e now creds = Inr (user_email user)"
    using require_user_email [OF auth] by simp
next
  assume "raw_title body = None \<or> raw_content body = None"
  then have "validate_NoteCreate body = Inl RequestValidationError"
    by (rule validate_NoteCreate_None)
  then show "post_notes e now creds body d = (Inl RequestValidationError, d)"
    by (simp add: post_notes_def auth)
next
  assume "raw_title body = Some t \<and> raw_content body = Some c"
  then have v: "validate_NoteCreate body = Inr \<lparr>title = t, content = c\<rparr>"
    by (simp add: validate_NoteCreate_Some)
  show "\<exists>new. post_notes e now creds body d
                      = (Inr (201, NoteOut_from new),
                         d\<lparr>notes_table := notes_table d @ [new],
                           next_note_id := next_note_id d + 1\<rparr>)
                  \<and> note_owner_email new = user_email user
                  \<and> note_title new = t \<and> note_content new = c"
    by (rule exI [of _ "\<lparr>note_id = next_note_id d, note_owner_email = user_email user,
                         note_title = t, note_content = c, note_created_at = now\<rparr>"])
       (simp add: post_notes_def auth v create_note_def Let_def)
qed

theorem created_note_is_owned_by_token_user_witness:
  "require_user example_env 100 bob_token two_users_db = Inr bob
   \<and> decode_token example_env 100 bob_token = Inr ''b@x.com''
   \<and> post_notes example_env 100 bob_token \<lparr>raw_title = Some ''t'', raw_content = None\<rparr>
        two_users_db
       = (Inl RequestValidationError, two_users_db)
   \<and> (\<exists>new. post_notes example_env 100 bob_token
                \<lparr>raw_title = Some ''t'', raw_content = Some ''c''\<rparr> two_users_db
                = (Inr (201, NoteOut_from new),
                   two_users_db\<lparr>notes_table := notes_table two_users_db @ [new],
                                next_note_id := next_note_id two_users_db + 1\<rparr>)
            \<and> note_owner_email new = ''b@x.com''
            \<and> note_title new = ''t'' \<and> note_content new = ''c'')"
proof -
  have h: "require_user example_env 100 bob_token two_users_db = Inr bob"
    by (rule require_user_bob)
  have e: "user_email bob = ''b@x.com''"
    by (simp add: bob_def)
  show ?thesis
    using h
      created_note_is_owned_by_token_user
        [OF h, of "\<lparr>raw_title = Some ''t'', raw_content = None\<rparr>"]
      created_note_is_owned_by_token_user
        [OF h, of "\<lparr>raw_title = Some ''t'', raw_content = Some ''c''\<rparr>" "''t''" "''c''"]
    unfolding e by simp
qed

section \<open>Listing\<close>

text \<open>
  Claim C4. After any run of creations by any users on any store, \<open>list_notes\<close> for a
  user answers 200 with a list that holds exactly the notes of the store whose owner is
  that user's email, each as often as the store holds it and no other note, in
  descending order of id. When the run starts from a store whose ids ascend below the
  counter, as in every store the service reaches, the list is the owner's notes in
  reverse insertion order, latest first, and its ids descend strictly.
\<close>

theorem list_notes_own_notes_descending:
  "(\<exists>ns. list_notes user (create_notes reqs d) = (Inr (200, ns), create_notes reqs d)
        \<and> mset ns = filter_mset (\<lambda>n. note_owner_email n = user_email user)
                       (mset (notes_table (create_notes reqs d)))
        \<and> sorted_wrt (\<lambda>a b. note_id b \<le> note_id a) ns)
   \<and> (notes_keyed d \<longrightarrow>
        fst (list_notes user (create_notes reqs d))
          = Inr (200, rev (filter (\<lambda>n. note_owner_email n = user_email user)
                             (notes_table (create_notes reqs d))))
        \<and> sorted_wrt (\<lambda>a b. note_id b < note_id a)
            (rev (filter (\<lambda>n. note_owner_email n = user_email user)
                    (notes_table (create_notes reqs d)))))"
proof (intro conjI impI)
  show "\<exists>ns. list_notes user (create_notes reqs d) = (Inr (200, ns), create_notes reqs d)
        \<and> mset ns = filter_mset (\<lambda>n. note_owner_email n = user_email user)
                       (mset (notes_table (create_notes reqs d)))
        \<and> sorted_wrt (\<lambda>a b. note_id b \<le> note_id a) ns"
    by (rule list_notes_any_store)
next
  let ?own = "filter (\<lambda>n. note_owner_email n = user_email user)
                (notes_table (create_notes reqs d))"
  assume "notes_keyed d"
  then have "notes_keyed (create_notes reqs d)"
    by (rule notes_keyed_create_notes)
  then have "sorted_wrt (\<lambda>a b. note_id a < note_id b) (notes_table (create_notes reqs d))"
    by (simp add: notes_keyed_def sorted_wrt_map)
  then have asc: "sorted_wrt (\<lambda>a b. note_id a < note_id b) ?own"
    by (rule sorted_wrt_filter)
  show "fst (list_notes user (create_notes reqs d)) = Inr (200, rev ?own)"
    by (simp add: list_notes_def sort_key_ascending [OF asc])
  show "sorted_wrt (\<lambda>a b. note_id b < note_id a) (rev ?own)"
    using asc by (simp add: sorted_wrt_rev)
qed

text \<open>
  On the store that holds Alice's note 1, Alice, Bob and Alice again each create a note;
  Alice's listing is then her notes 4, 2 and 1.
\<close>

theorem list_notes_own_notes_descending_witness:
  "notes_keyed two_users_db
   \<and> fst (list_notes alice (create_notes three_creations two_users_db))
       = Inr (200, [\<lparr>note_id = 4, note_owner_email = ''a@x.com'', note_title = ''a2'',
                      note_content = ''z'', note_created_at = 52\<rparr>,
                    \<lparr>note_id = 2, note_owner_email = ''a@x.com'', note_title = ''a1'',
                      note_content = ''x'', note_created_at = 50\<rparr>,
                    alice_note])"
proof -
  have h: "notes_keyed two_users_db"
    by (simp add: notes_keyed_def two_users_db_def alice_note_def)
  have c: "rev (filter (\<lambda>n. note_owner_email n = user_email alice)
             (notes_table (create_notes three_creations two_users_db)))
        = [\<lparr>note_id = 4, note_owner_email = ''a@x.com'', note_title = ''a2'',
             note_content = ''z'', note_created_at = 52\<rparr>,
           \<lparr>note_id = 2, note_owner_email = ''a@x.com'', note_title = ''a1'',
             note_content = ''x'', note_created_at = 50\<rparr>,
           alice_note]"
    by (simp add: three_creations_def two_users_db_def alice_def bob_def alice_note_def
        create_note_def Let_def)
  show ?thesis
    using h c list_notes_own_notes_descending [of alice three_creations two_users_db]
    by simp
qed

end
